theory Spec2Isabelle
  imports Main "HOL-Library.AList"
begin

section \<open>The Elasticsearch backfill script\<close>

text \<open>
  A shallow embedding of \<^verbatim>\<open>scripts/elasticsearch_backfill_app.py\<close>: the class
  \<^verbatim>\<open>ElasticsearchBackfillApp\<close> with its methods \<^verbatim>\<open>main\<close>,
  \<^verbatim>\<open>get_index_for_date\<close>, \<^verbatim>\<open>format_dates_in_crash\<close> and
  \<^verbatim>\<open>index_crashes\<close>.

  The script talks to two storage systems and to the standard library. Their calls are
  parameters of the model (the record \<open>collaborators\<close>); what the script does to
  them is recorded, in order, as a list of events.
\<close>

subsection \<open>Exceptions\<close>

text \<open>
  The exceptions that can travel through the script. The first three are the ones the
  \<^verbatim>\<open>except\<close> clause of \<^verbatim>\<open>format_dates_in_crash\<close> names;
  \<open>OverflowError\<close> is what Python's date arithmetic raises below \<^verbatim>\<open>date.min\<close>;
  \<open>OtherError\<close> stands for anything else a collaborator raises.
\<close>

datatype py_error =
    ValueError
  | TypeError
  | ISO8601Error
  | OverflowError
  | KeyError
  | OtherError string

text \<open>\<^verbatim>\<open>except (ValueError, TypeError, ISO8601Error)\<close>\<close>

fun caught :: "py_error \<Rightarrow> bool" where
  "caught ValueError = True"
| "caught TypeError = True"
| "caught ISO8601Error = True"
| "caught _ = False"

subsection \<open>Calendar days\<close>

text \<open>
  A \<^verbatim>\<open>datetime.date\<close> is its proleptic Gregorian ordinal
  (\<^verbatim>\<open>date.toordinal()\<close>): \<^verbatim>\<open>date.min\<close>, the first of January of year 1, is
  day 1. Subtracting \<^verbatim>\<open>datetime.timedelta(days=1)\<close> lowers the ordinal by one and
  raises \<^verbatim>\<open>OverflowError\<close> when the result would lie before \<^verbatim>\<open>date.min\<close>.
\<close>

type_synonym date = int

definition date_min :: date where
  "date_min = 1"

definition sub_one_day :: "date \<Rightarrow> py_error + date" where
  "sub_one_day d = (if d - 1 < date_min then Inl OverflowError else Inr (d - 1))"

subsection \<open>Crash reports\<close>

text \<open>
  A processed crash is the dictionary \<^verbatim>\<open>json.loads\<close> returns: an association list
  from attribute names to values, in the dictionary's iteration order. The script never
  looks inside a value (it only hands it to \<^verbatim>\<open>datetimeutil\<close>), so the type of
  values is a parameter.
\<close>

type_synonym 'v crash = "(string \<times> 'v) list"

text \<open>\<^verbatim>\<open>processed_crash[attr]\<close>\<close>

definition getitem :: "'v crash \<Rightarrow> string \<Rightarrow> py_error + 'v" where
  "getitem processed_crash attr =
     (case map_of processed_crash attr of None \<Rightarrow> Inl KeyError | Some v \<Rightarrow> Inr v)"

subsection \<open>Configuration and collaborators\<close>

text \<open>
  The options \<^verbatim>\<open>main\<close> reads from \<^verbatim>\<open>self.config\<close>. The index name may be
  unset (\<open>None\<close>) or the empty string; \<^verbatim>\<open>duration\<close> and
  \<^verbatim>\<open>index_doc_number\<close> are Python integers.
\<close>

record config =
  end_date :: date
  duration :: int
  index_doc_number :: int
  elasticsearch_index :: "string option"
  elasticsearch_doctype :: string

text \<open>
  What the script calls and does not define:
  \<^item> \<open>strftime\<close>: \<^verbatim>\<open>date.strftime(format)\<close> of the standard library;
  \<^item> \<open>get_list_of_processed_json_for_date\<close>: the HBase client's fetch of one day's
    reports, given the day's key and the number of retries; it returns the reports or
    raises;
  \<^item> \<open>json_loads\<close>: \<^verbatim>\<open>json.loads\<close>, which returns the crash or raises;
  \<^item> \<open>string_to_datetime\<close> and \<open>date_to_string\<close>: the two functions of
    \<^verbatim>\<open>socorro.lib.datetimeutil\<close>, each of which returns or raises; \<open>'d\<close>
    is the type of what \<open>string_to_datetime\<close> returns.
\<close>

record ('v, 'd) collaborators =
  strftime :: "date \<Rightarrow> string \<Rightarrow> string"
  get_list_of_processed_json_for_date :: "string \<Rightarrow> nat \<Rightarrow> py_error + string list"
  json_loads :: "string \<Rightarrow> py_error + 'v crash"
  string_to_datetime :: "'v \<Rightarrow> py_error + 'd"
  date_to_string :: "'d \<Rightarrow> py_error + 'v"

text \<open>
  The calls the script makes, in the order it makes them:
  \<^item> \<open>LogInfo day\<close>: \<^verbatim>\<open>logger.info('backfilling crashes for %s', day)\<close>;
  \<^item> \<open>CreateIndex es_index\<close>: \<^verbatim>\<open>es_storage.create_index(es_index)\<close>;
  \<^item> \<open>GetList day n\<close>:
    \<^verbatim>\<open>hb_client.get_list_of_processed_json_for_date(day, number_of_retries=n)\<close>;
  \<^item> \<open>BulkIndex es_index doctype crashes\<close>:
    \<^verbatim>\<open>es_storage.es.bulk_index(es_index, doctype, crashes, id_field='uuid')\<close>.
  The two Elasticsearch calls are recorded only: what they answer is not part of the model.
\<close>

datatype 'v event =
    LogInfo string
  | CreateIndex "string option"
  | GetList string nat
  | BulkIndex "string option" string "'v crash list"

subsection \<open>\<^verbatim>\<open>get_index_for_date\<close>\<close>

text \<open>
  \<^verbatim>\<open>
  index = self.config.elasticsearch_index
  if not index:
      return None
  if '%' in index:
      index = day.strftime(index)
  return index
  \<close>
\<close>

definition get_index_for_date ::
  "('v, 'd) collaborators \<Rightarrow> config \<Rightarrow> date \<Rightarrow> string option" where
  "get_index_for_date env cfg day =
     (case elasticsearch_index cfg of
        None \<Rightarrow> None
      | Some index \<Rightarrow>
          if index = [] then None
          else if CHR ''%'' \<in> set index then Some (strftime env day index)
          else Some index)"

text \<open>
  The same method with a \<^verbatim>\<open>day.strftime\<close> that may raise: the method has no
  handler, so the exception leaves it. The first argument is \<^verbatim>\<open>strftime\<close>,
  the second the configured index name. The model of \<^verbatim>\<open>main\<close> below takes a
  \<^verbatim>\<open>strftime\<close> that returns, and for such a one this definition and the one
  above agree.
\<close>

definition get_index_for_date_or_raise ::
  "(date \<Rightarrow> string \<Rightarrow> py_error + string) \<Rightarrow> string option \<Rightarrow> date \<Rightarrow> py_error + string option" where
  "get_index_for_date_or_raise day_strftime configured day =
     (case configured of
        None \<Rightarrow> Inr None
      | Some index \<Rightarrow>
          if index = [] then Inr None
          else if CHR ''%'' \<in> set index
          then (case day_strftime day index of
                  Inl e \<Rightarrow> Inl e
                | Inr formatted \<Rightarrow> Inr (Some formatted))
          else Inr (Some index))"

subsection \<open>\<^verbatim>\<open>format_dates_in_crash\<close>\<close>

text \<open>
  \<^verbatim>\<open>datetimeutil.date_to_string(datetimeutil.string_to_datetime(v))\<close>: the second
  call is made only when the first one returns.
\<close>

definition convert_date :: "('v, 'd) collaborators \<Rightarrow> 'v \<Rightarrow> py_error + 'v" where
  "convert_date env v =
     (case string_to_datetime env v of
        Inl e \<Rightarrow> Inl e
      | Inr d \<Rightarrow> date_to_string env d)"

text \<open>
  The loop over the attributes. Each round reads \<^verbatim>\<open>processed_crash[attr]\<close>,
  converts it and stores the result under the same key; an exception of the
  \<^verbatim>\<open>except\<close> clause leaves the dictionary as it is and goes on to the next
  attribute; any other exception leaves the function.
\<close>

fun format_dates_loop ::
  "('v, 'd) collaborators \<Rightarrow> string list \<Rightarrow> 'v crash \<Rightarrow> py_error + 'v crash" where
  "format_dates_loop env [] processed_crash = Inr processed_crash"
| "format_dates_loop env (attr # attrs) processed_crash =
     (case (case getitem processed_crash attr of
              Inl e \<Rightarrow> Inl e
            | Inr v \<Rightarrow> convert_date env v) of
        Inr s \<Rightarrow> format_dates_loop env attrs (AList.update attr s processed_crash)
      | Inl e \<Rightarrow>
          if caught e then format_dates_loop env attrs processed_crash else Inl e)"

definition format_dates_in_crash ::
  "('v, 'd) collaborators \<Rightarrow> 'v crash \<Rightarrow> py_error + 'v crash" where
  "format_dates_in_crash env processed_crash =
     format_dates_loop env (map fst processed_crash) processed_crash"

subsection \<open>\<^verbatim>\<open>index_crashes\<close>\<close>

definition index_crashes :: "config \<Rightarrow> string option \<Rightarrow> 'v crash list \<Rightarrow> 'v event" where
  "index_crashes cfg es_index crashes_to_index =
     BulkIndex es_index (elasticsearch_doctype cfg) crashes_to_index"

subsection \<open>\<^verbatim>\<open>main\<close>\<close>

text \<open>
  What the loop over a day's reports does with one processed crash:
  \<^verbatim>\<open>
  if len(crashes_to_index) > self.config.index_doc_number:
      self.index_crashes(es_index, crashes_to_index)
      crashes_to_index = []
  crashes_to_index.append(processed_crash)
  \<close>
  The result is the batch handed to \<^verbatim>\<open>index_crashes\<close>, if any, and the new
  list of pending crashes.
\<close>

definition offer ::
  "config \<Rightarrow> 'v crash list \<Rightarrow> 'v crash \<Rightarrow> 'v crash list option \<times> 'v crash list" where
  "offer cfg crashes_to_index processed_crash =
     (if int (length crashes_to_index) > index_doc_number cfg
      then (Some crashes_to_index, [processed_crash])
      else (None, crashes_to_index @ [processed_crash]))"

text \<open>
  \<^verbatim>\<open>processed_crash = self.format_dates_in_crash(json.loads(report))\<close>
\<close>

definition process_report :: "('v, 'd) collaborators \<Rightarrow> string \<Rightarrow> py_error + 'v crash" where
  "process_report env report =
     (case json_loads env report of
        Inl e \<Rightarrow> Inl e
      | Inr crash \<Rightarrow> format_dates_in_crash env crash)"

text \<open>
  \<^verbatim>\<open>for report in reports:\<close> with the pending list as state. The result is the
  bulk writes made, and either the exception that left the loop or the pending list at
  its end.
\<close>

fun index_reports ::
  "('v, 'd) collaborators \<Rightarrow> config \<Rightarrow> string option \<Rightarrow> string list \<Rightarrow> 'v crash list \<Rightarrow>
     'v event list \<times> (py_error + 'v crash list)" where
  "index_reports env cfg es_index [] crashes_to_index = ([], Inr crashes_to_index)"
| "index_reports env cfg es_index (report # reports) crashes_to_index =
     (case process_report env report of
        Inl e \<Rightarrow> ([], Inl e)
      | Inr processed_crash \<Rightarrow>
          (case offer cfg crashes_to_index processed_crash of
             (ready, pending) \<Rightarrow>
               (case index_reports env cfg es_index reports pending of
                  (evs, r) \<Rightarrow>
                    ((case ready of
                        None \<Rightarrow> []
                      | Some batch \<Rightarrow> [index_crashes cfg es_index batch]) @ evs,
                     r))))"

text \<open>
  One round of \<^verbatim>\<open>for i in range(self.config.duration):\<close>, up to and without
  \<^verbatim>\<open>current_date -= one_day\<close>.
\<close>

definition backfill_day ::
  "('v, 'd) collaborators \<Rightarrow> config \<Rightarrow> date \<Rightarrow> 'v event list \<times> (py_error + unit)" where
  "backfill_day env cfg current_date =
     (let es_index = get_index_for_date env cfg current_date;
          day = strftime env current_date ''%y%m%d'';
          started = [LogInfo day, CreateIndex es_index, GetList day 5]
      in case get_list_of_processed_json_for_date env day 5 of
           Inl e \<Rightarrow> (started, Inl e)
         | Inr reports \<Rightarrow>
             (case index_reports env cfg es_index reports [] of
                (evs, Inl e) \<Rightarrow> (started @ evs, Inl e)
              | (evs, Inr crashes_to_index) \<Rightarrow>
                  (started @ evs @
                     (if length crashes_to_index > 0
                      then [index_crashes cfg es_index crashes_to_index] else []),
                   Inr ())))"

text \<open>
  The loop over the days: \<open>n\<close> rounds are left and \<open>current_date\<close> is the day of
  the next one. Each round is recorded as the day with the events of that round.
\<close>

fun main_loop ::
  "('v, 'd) collaborators \<Rightarrow> config \<Rightarrow> nat \<Rightarrow> date \<Rightarrow>
     (date \<times> 'v event list) list \<times> (py_error + unit)" where
  "main_loop env cfg 0 current_date = ([], Inr ())"
| "main_loop env cfg (Suc n) current_date =
     (case backfill_day env cfg current_date of
        (evs, Inl e) \<Rightarrow> ([(current_date, evs)], Inl e)
      | (evs, Inr u) \<Rightarrow>
          (case sub_one_day current_date of
             Inl e \<Rightarrow> ([(current_date, evs)], Inl e)
           | Inr previous \<Rightarrow>
               (case main_loop env cfg n previous of
                  (days, r) \<Rightarrow> ((current_date, evs) # days, r))))"

text \<open>
  \<^verbatim>\<open>main\<close>: \<^verbatim>\<open>range(duration)\<close> has \<open>nat duration\<close> elements (none when
  the duration is not positive), and the method returns 0 at the end of the loop.
\<close>

definition main ::
  "('v, 'd) collaborators \<Rightarrow> config \<Rightarrow> (date \<times> 'v event list) list \<times> (py_error + int)" where
  "main env cfg =
     (case main_loop env cfg (nat (duration cfg)) (end_date cfg) of
        (days, Inl e) \<Rightarrow> (days, Inl e)
      | (days, Inr u) \<Rightarrow> (days, Inr 0))"

subsection \<open>Reading the events\<close>

text \<open>The crash lists of the bulk writes among some events, in order.\<close>

fun bulk_batches :: "'v event list \<Rightarrow> 'v crash list list" where
  "bulk_batches [] = []"
| "bulk_batches (BulkIndex es_index doctype crashes # evs) = crashes # bulk_batches evs"
| "bulk_batches (ev # evs) = bulk_batches evs"

text \<open>The arguments of the index creations among some events, in order.\<close>

fun create_calls :: "'v event list \<Rightarrow> string option list" where
  "create_calls [] = []"
| "create_calls (CreateIndex es_index # evs) = es_index # create_calls evs"
| "create_calls (ev # evs) = create_calls evs"

text \<open>The day key and number of retries of the fetches among some events, in order.\<close>

fun fetch_calls :: "'v event list \<Rightarrow> (string \<times> nat) list" where
  "fetch_calls [] = []"
| "fetch_calls (GetList day retries # evs) = (day, retries) # fetch_calls evs"
| "fetch_calls (ev # evs) = fetch_calls evs"

subsection \<open>Two views used in the proofs\<close>

text \<open>
  Offering a list of processed crashes one after the other, as the loop over the reports
  does once each report is deserialized and its dates are formatted: the batches handed
  to \<^verbatim>\<open>index_crashes\<close> on the way, and the crashes pending at the end.
\<close>

fun offer_all ::
  "config \<Rightarrow> 'v crash list \<Rightarrow> 'v crash list \<Rightarrow> 'v crash list list \<times> 'v crash list" where
  "offer_all cfg crashes_to_index [] = ([], crashes_to_index)"
| "offer_all cfg crashes_to_index (processed_crash # rest) =
     (case offer cfg crashes_to_index processed_crash of
        (ready, pending) \<Rightarrow>
          (case offer_all cfg pending rest of
             (batches, final) \<Rightarrow>
               ((case ready of None \<Rightarrow> [] | Some batch \<Rightarrow> [batch]) @ batches, final)))"

text \<open>
  The loop of \<^verbatim>\<open>format_dates_in_crash\<close> read entry by entry. A dictionary has
  each key once, and then reading \<^verbatim>\<open>processed_crash[attr]\<close> and storing under
  \<^verbatim>\<open>attr\<close> touch the entry the loop stands at (\<open>format_dates_in_crash_entries\<close>
  below).
\<close>

fun format_entries :: "('v, 'd) collaborators \<Rightarrow> 'v crash \<Rightarrow> py_error + 'v crash" where
  "format_entries env [] = Inr []"
| "format_entries env ((attr, v) # rest) =
     (case convert_date env v of
        Inr s \<Rightarrow>
          (case format_entries env rest of
             Inl e \<Rightarrow> Inl e
           | Inr rest' \<Rightarrow> Inr ((attr, s) # rest'))
      | Inl e \<Rightarrow>
          if caught e
          then (case format_entries env rest of
                  Inl e' \<Rightarrow> Inl e'
                | Inr rest' \<Rightarrow> Inr ((attr, v) # rest'))
          else Inl e)"

subsection \<open>What the specification asks of \<^verbatim>\<open>datetimeutil\<close>\<close>

text \<open>
  Modelled from the spec: \<^verbatim>\<open>socorro.lib.datetimeutil\<close>, with its functions
  \<^verbatim>\<open>string_to_datetime\<close> and \<^verbatim>\<open>date_to_string\<close>, is not among the
  sources. The specification (4.3) says of the canonical output format that
  ``normalizing an already-canonical date string must reproduce it unchanged'': whatever
  the two functions produce from some value, they produce again from that product.
\<close>

definition canonical_stable :: "('v, 'd) collaborators \<Rightarrow> bool" where
  "canonical_stable env =
     (\<forall>v s. convert_date env v = Inr s \<longrightarrow> convert_date env s = Inr s)"

text \<open>
  The three exceptions that the \<^verbatim>\<open>except\<close> clause of
  \<^verbatim>\<open>format_dates_in_crash\<close> reads as ``the attribute is not a date''.
\<close>

datatype not_a_date = AsValueError | AsTypeError | AsISO8601Error

fun not_a_date_error :: "not_a_date \<Rightarrow> py_error" where
  "not_a_date_error AsValueError = ValueError"
| "not_a_date_error AsTypeError = TypeError"
| "not_a_date_error AsISO8601Error = ISO8601Error"

text \<open>
  Modelled from the spec: \<^verbatim>\<open>socorro.lib.datetimeutil\<close> is not among the
  sources. The specification (4.3, 9) describes it as an attempt to parse a value as a
  date/time string, ``tryParseDate(value) -> Optional<DateTime>'': present for a
  recognized date/time string and absent for anything else (numeric-looking non-date
  strings, empty strings, null sentinels); a date that is present is then rewritten to
  the canonical output format. In the code an absent result is an exception, one of the
  three above; \<open>absent_as\<close> says which one a value is refused with. The other
  collaborators are taken over as they are.
\<close>

definition spec_datetimeutil ::
  "('v \<Rightarrow> 'd option) \<Rightarrow> ('v \<Rightarrow> not_a_date) \<Rightarrow> ('d \<Rightarrow> 'v) \<Rightarrow>
     ('v, 'c) collaborators \<Rightarrow> ('v, 'd) collaborators" where
  "spec_datetimeutil try_parse_date absent_as canonical env =
     \<lparr>strftime = strftime env,
      get_list_of_processed_json_for_date = get_list_of_processed_json_for_date env,
      json_loads = json_loads env,
      string_to_datetime =
        (\<lambda>v. case try_parse_date v of
               None \<Rightarrow> Inl (not_a_date_error (absent_as v))
             | Some d \<Rightarrow> Inr d),
      date_to_string = (\<lambda>d. Inr (canonical d))\<rparr>"

subsection \<open>A concrete run\<close>

text \<open>
  Collaborators for the examples. Values are the scalars of JSON; a parsed date is kept
  as its canonical text, and \<open>None\<close> is Python's \<^verbatim>\<open>None\<close>. The date functions
  know one day, written in two ways; \<^verbatim>\<open>None\<close> goes through
  \<open>string_to_datetime\<close> and is refused by \<open>date_to_string\<close>.
\<close>

datatype json_value = JNull | JString string | JNumber int

definition demo_string_to_datetime :: "json_value \<Rightarrow> py_error + string option" where
  "demo_string_to_datetime v =
     (case v of
        JNull \<Rightarrow> Inr None
      | JNumber n \<Rightarrow> Inl ValueError
      | JString s \<Rightarrow>
          if s = ''2024-03-10'' then Inr (Some ''2024-03-10T00:00:00+00:00'')
          else if s = ''2024-03-10T00:00:00+00:00''
          then Inr (Some ''2024-03-10T00:00:00+00:00'')
          else Inl ValueError)"

definition demo_date_to_string :: "string option \<Rightarrow> py_error + json_value" where
  "demo_date_to_string d = (case d of None \<Rightarrow> Inl TypeError | Some s \<Rightarrow> Inr (JString s))"

text \<open>
  \<^verbatim>\<open>date(2024, 3, 10).toordinal()\<close> is 738955, 738954 is the day before, and
  day 1 is \<^verbatim>\<open>date.min\<close>. Formatting knows these three days, the format of the
  day key and the format of the index name.
\<close>

definition demo_day_key :: "date \<Rightarrow> string" where
  "demo_day_key d =
     (if d = 738955 then ''240310''
      else if d = 738954 then ''240309''
      else if d = 1 then ''010101''
      else ''000000'')"

definition demo_strftime :: "date \<Rightarrow> string \<Rightarrow> string" where
  "demo_strftime d fmt =
     (if fmt = ''%y%m%d'' then demo_day_key d else ''socorro'' @ demo_day_key d)"

definition crash_a :: "json_value crash" where
  "crash_a =
     [(''uuid'', JString ''a''), (''date_processed'', JString ''2024-03-10''),
      (''build'', JString ''20240301''), (''email'', JString []), (''hang_type'', JNull),
      (''uptime'', JNumber 17)]"

definition crash_b :: "json_value crash" where
  "crash_b =
     [(''uuid'', JString ''b''),
      (''client_crash_date'', JString ''2024-03-10T00:00:00+00:00'')]"

definition crash_c :: "json_value crash" where
  "crash_c = [(''uuid'', JString ''c'')]"

definition demo_json_loads :: "string \<Rightarrow> py_error + json_value crash" where
  "demo_json_loads report =
     (if report = ''report a'' then Inr crash_a
      else if report = ''report b'' then Inr crash_b
      else if report = ''report c'' then Inr crash_c
      else Inl ValueError)"

definition demo_get_list :: "string \<Rightarrow> nat \<Rightarrow> py_error + string list" where
  "demo_get_list day retries =
     (if day = ''240310'' then Inr [''report a'', ''report b'', ''report c''] else Inr [])"

definition demo_env :: "(json_value, string option) collaborators" where
  "demo_env =
     \<lparr>strftime = demo_strftime,
      get_list_of_processed_json_for_date = demo_get_list,
      json_loads = demo_json_loads,
      string_to_datetime = demo_string_to_datetime,
      date_to_string = demo_date_to_string\<rparr>"

definition demo_config :: config where
  "demo_config =
     \<lparr>end_date = 738955, duration = 2, index_doc_number = 1,
      elasticsearch_index = Some ''socorro%y%m%d'',
      elasticsearch_doctype = ''crash_reports''\<rparr>"

text \<open>
  A \<^verbatim>\<open>strftime\<close> that reads its format: \<^verbatim>\<open>%y\<close>, \<^verbatim>\<open>%m\<close> and
  \<^verbatim>\<open>%d\<close> stand for the two digits of the year, the month and the day of the
  day key, \<^verbatim>\<open>%%\<close> stands for a percent sign, and everything else is kept.
\<close>

fun expand_directives :: "string \<Rightarrow> string \<Rightarrow> string" where
  "expand_directives key (c # c' # rest) =
     (if c = CHR ''%'' then
        (if c' = CHR ''%'' then CHR ''%'' # expand_directives key rest
         else if c' = CHR ''y'' then take 2 key @ expand_directives key rest
         else if c' = CHR ''m'' then take 2 (drop 2 key) @ expand_directives key rest
         else if c' = CHR ''d'' then drop 4 key @ expand_directives key rest
         else c # c' # expand_directives key rest)
      else c # expand_directives key (c' # rest))"
| "expand_directives key fmt = fmt"

text \<open>
  The same, refusing with \<^verbatim>\<open>ValueError\<close> a day before 1900-01-01 (day 693596).
\<close>

definition directive_strftime :: "date \<Rightarrow> string \<Rightarrow> py_error + string" where
  "directive_strftime d fmt =
     (if d < 693596 then Inl ValueError else Inr (expand_directives (demo_day_key d) fmt))"

text \<open>
  A parser for the examples: it knows one day, written in two ways, and keeps a parsed
  date as its canonical text.
\<close>

definition demo_try_parse_date :: "json_value \<Rightarrow> string option" where
  "demo_try_parse_date v =
     (case v of
        JNull \<Rightarrow> None
      | JNumber n \<Rightarrow> None
      | JString s \<Rightarrow>
          if s = ''2024-03-10'' then Some ''2024-03-10T00:00:00+00:00''
          else if s = ''2024-03-10T00:00:00+00:00''
          then Some ''2024-03-10T00:00:00+00:00''
          else None)"

definition demo_absent_as :: "json_value \<Rightarrow> not_a_date" where
  "demo_absent_as v = (case v of JNull \<Rightarrow> AsTypeError | JNumber n \<Rightarrow> AsValueError
     | JString s \<Rightarrow> if s = [] then AsValueError else AsISO8601Error)"

text \<open>The same source with a payload that is not JSON between two that are.\<close>

definition demo_env_malformed :: "(json_value, string option) collaborators" where
  "demo_env_malformed =
     demo_env\<lparr>get_list_of_processed_json_for_date :=
       (\<lambda>day retries.
          if day = ''240310'' then Inr [''report a'', ''{'', ''report b''] else Inr [])\<rparr>"

text \<open>The same source failing for the first day, retries exhausted.\<close>

definition demo_env_unreachable :: "(json_value, string option) collaborators" where
  "demo_env_unreachable =
     demo_env\<lparr>get_list_of_processed_json_for_date :=
       (\<lambda>day retries.
          if day = ''240310'' then Inl (OtherError ''hbase'') else Inr [''report c''])\<rparr>"

section \<open>Auxiliary facts\<close>

subsection \<open>Events\<close>

lemma bulk_batches_append [simp]:
  "bulk_batches (xs @ ys) = bulk_batches xs @ bulk_batches ys"
  by (induction xs rule: bulk_batches.induct) auto

lemma bulk_batches_index_crashes [simp]:
  "bulk_batches (map (index_crashes cfg es_index) batches) = batches"
  by (induction batches) (auto simp: index_crashes_def)

lemma create_calls_append [simp]:
  "create_calls (xs @ ys) = create_calls xs @ create_calls ys"
  by (induction xs rule: create_calls.induct) auto

lemma create_calls_index_crashes [simp]:
  "create_calls (map (index_crashes cfg es_index) batches) = []"
  by (induction batches) (auto simp: index_crashes_def)

lemma fetch_calls_append [simp]:
  "fetch_calls (xs @ ys) = fetch_calls xs @ fetch_calls ys"
  by (induction xs rule: fetch_calls.induct) auto

lemma fetch_calls_index_crashes [simp]:
  "fetch_calls (map (index_crashes cfg es_index) batches) = []"
  by (induction batches) (auto simp: index_crashes_def)

subsection \<open>The loop over a day's reports\<close>

text \<open>While the pending list stays within the threshold plus one, nothing is handed over.\<close>

lemma offer_all_below:
  "int (length pending) + int (length cs) \<le> index_doc_number cfg + 1 \<Longrightarrow>
   offer_all cfg pending cs = ([], pending @ cs)"
  by (induction cs arbitrary: pending) (auto simp: offer_def)

text \<open>Nothing is lost, doubled or moved: batches and pending list together are the input.\<close>

lemma offer_all_concat:
  "offer_all cfg pending cs = (batches, final) \<Longrightarrow> concat batches @ final = pending @ cs"
proof (induction cs arbitrary: pending batches final)
  case Nil
  then show ?case by simp
next
  case (Cons c cs)
  show ?case
  proof (cases "int (length pending) > index_doc_number cfg")
    case True
    obtain bs p where r: "offer_all cfg [c] cs = (bs, p)"
      by (cases "offer_all cfg [c] cs")
    from Cons.IH [OF r] Cons.prems True r show ?thesis
      by (auto simp: offer_def)
  next
    case False
    obtain bs p where r: "offer_all cfg (pending @ [c]) cs = (bs, p)"
      by (cases "offer_all cfg (pending @ [c]) cs")
    from Cons.IH [OF r] Cons.prems False r show ?thesis
      by (auto simp: offer_def)
  qed
qed

text \<open>When every report is processed without an exception, the loop is \<open>offer_all\<close>.\<close>

lemma index_reports_offer_all:
  "map (process_report env) reports = map Inr processed \<Longrightarrow>
   index_reports env cfg es_index reports pending =
     (map (index_crashes cfg es_index) (fst (offer_all cfg pending processed)),
      Inr (snd (offer_all cfg pending processed)))"
proof (induction reports arbitrary: pending processed)
  case Nil
  then show ?case by simp
next
  case (Cons r rs)
  then obtain c cs where p: "processed = c # cs" "process_report env r = Inr c"
     "map (process_report env) rs = map Inr cs"
    by (cases processed) auto
  show ?case
    using Cons.IH [OF p(3)] p(1,2)
    by (auto split: prod.splits option.splits)
qed

lemma offer_all_append:
  "offer_all cfg pending (xs @ ys) =
     (fst (offer_all cfg pending xs) @ fst (offer_all cfg (snd (offer_all cfg pending xs)) ys),
      snd (offer_all cfg (snd (offer_all cfg pending xs)) ys))"
  by (induction xs arbitrary: pending) (auto split: prod.splits)

lemma process_report_map:
  "map (json_loads env) reports = map Inr crashes \<Longrightarrow>
   map (format_dates_in_crash env) crashes = map Inr processed \<Longrightarrow>
   map (process_report env) reports = map Inr processed"
proof (induction reports arbitrary: crashes processed)
  case Nil
  then show ?case by simp
next
  case (Cons r rs)
  then show ?case
    by (cases crashes; cases processed) (auto simp: process_report_def)
qed

subsection \<open>One day\<close>

text \<open>
  A day whose fetch returns and whose reports are all processed without an exception:
  the three opening calls, the batches of the loop, and the pending crashes if any.
\<close>

lemma backfill_day_processed:
  assumes "get_list_of_processed_json_for_date env (strftime env d ''%y%m%d'') 5 = Inr reports"
    and "map (process_report env) reports = map Inr processed"
  shows "backfill_day env cfg d =
     ([LogInfo (strftime env d ''%y%m%d''), CreateIndex (get_index_for_date env cfg d),
       GetList (strftime env d ''%y%m%d'') 5] @
      map (index_crashes cfg (get_index_for_date env cfg d))
        (fst (offer_all cfg [] processed) @
         (if snd (offer_all cfg [] processed) = [] then []
          else [snd (offer_all cfg [] processed)])),
      Inr ())"
  using assms(1) index_reports_offer_all [OF assms(2)]
  by (simp add: backfill_day_def Let_def)

text \<open>What a day calls besides the bulk writes, whatever happens in it.\<close>

lemma index_reports_no_other_calls:
  "create_calls (fst (index_reports env cfg es_index reports pending)) = [] \<and>
   fetch_calls (fst (index_reports env cfg es_index reports pending)) = []"
proof (induction reports arbitrary: pending)
  case Nil
  then show ?case by simp
next
  case (Cons r rs)
  show ?case
  proof (cases "process_report env r")
    case (Inl e)
    then show ?thesis by simp
  next
    case (Inr c)
    obtain ready p where o: "offer cfg pending c = (ready, p)"
      by (cases "offer cfg pending c")
    obtain evs res where i: "index_reports env cfg es_index rs p = (evs, res)"
      by (cases "index_reports env cfg es_index rs p")
    from Cons.IH [of p] Inr o i show ?thesis
      by (cases ready) (simp_all add: index_crashes_def)
  qed
qed

lemma index_reports_undecodable:
  "map (process_report env) good = map Inr processed \<Longrightarrow> json_loads env bad = Inl e \<Longrightarrow>
   index_reports env cfg es_index (good @ bad # rest) pending =
     (map (index_crashes cfg es_index) (fst (offer_all cfg pending processed)), Inl e)"
proof (induction good arbitrary: pending processed)
  case Nil
  then show ?case by (simp add: process_report_def)
next
  case (Cons r rs)
  then obtain c cs where p: "processed = c # cs" "process_report env r = Inr c"
     "map (process_report env) rs = map Inr cs"
    by (cases processed) auto
  show ?case
    using Cons.IH [OF p(3) Cons.prems(2)] p(1,2)
    by (auto split: prod.splits option.splits)
qed

lemma backfill_day_calls:
  "create_calls (fst (backfill_day env cfg d)) = [get_index_for_date env cfg d] \<and>
   fetch_calls (fst (backfill_day env cfg d)) = [(strftime env d ''%y%m%d'', 5)]"
proof (cases "get_list_of_processed_json_for_date env (strftime env d ''%y%m%d'') 5")
  case (Inl e)
  then show ?thesis by (simp add: backfill_day_def Let_def)
next
  case (Inr reports)
  obtain evs res where
    i: "index_reports env cfg (get_index_for_date env cfg d) reports [] = (evs, res)"
    by (cases "index_reports env cfg (get_index_for_date env cfg d) reports []")
  from index_reports_no_other_calls [of env cfg "get_index_for_date env cfg d" reports "[]"] i
  have "create_calls evs = []" "fetch_calls evs = []" by simp_all
  with Inr i show ?thesis
    by (cases res) (simp_all add: backfill_day_def Let_def index_crashes_def)
qed

subsection \<open>The loop over the days\<close>


subsection \<open>The loop over a crash's attributes\<close>

lemma getitem_append_fresh:
  "attr \<notin> fst ` set xs \<Longrightarrow> getitem (xs @ (attr, v) # ys) attr = Inr v"
  by (induction xs) (auto simp: getitem_def)

lemma update_append_fresh:
  "attr \<notin> fst ` set xs \<Longrightarrow>
   AList.update attr s (xs @ (attr, v) # ys) = xs @ (attr, s) # ys"
  by (induction xs) auto

lemma format_dates_loop_entries:
  "distinct (map fst (xs @ ys)) \<Longrightarrow>
   format_dates_loop env (map fst ys) (xs @ ys) =
     (case format_entries env ys of Inl e \<Rightarrow> Inl e | Inr zs \<Rightarrow> Inr (xs @ zs))"
proof (induction ys arbitrary: xs)
  case Nil
  then show ?case by simp
next
  case (Cons p ys)
  obtain attr v where p: "p = (attr, v)" by (cases p)
  from Cons.prems p have fresh: "attr \<notin> fst ` set xs" by auto
  have keep: "format_dates_loop env (map fst ys) (xs @ (attr, w) # ys) =
      (case format_entries env ys of Inl e \<Rightarrow> Inl e | Inr zs \<Rightarrow> Inr (xs @ (attr, w) # zs))"
    for w
    using Cons.IH [of "xs @ [(attr, w)]"] Cons.prems p by (simp split: sum.splits)
  show ?case
    unfolding p
    by (simp add: getitem_append_fresh [OF fresh] update_append_fresh [OF fresh] keep
        split: sum.splits)
qed

lemma format_dates_in_crash_entries:
  "distinct (map fst r) \<Longrightarrow> format_dates_in_crash env r = format_entries env r"
  using format_dates_loop_entries [of "[]" r env]
  by (simp add: format_dates_in_crash_def split: sum.splits)

lemma format_entries_keys:
  "format_entries env r = Inr r' \<Longrightarrow> map fst r' = map fst r"
  by (induction r arbitrary: r' rule: format_entries.induct)
     (auto split: sum.splits if_splits)

lemma format_entries_not_date:
  "format_entries env r = Inr r' \<Longrightarrow> distinct (map fst r) \<Longrightarrow> map_of r k = Some v \<Longrightarrow>
   convert_date env v = Inl e \<Longrightarrow> map_of r' k = Some v"
proof (induction r arbitrary: r' rule: format_entries.induct)
  case (1 env)
  then show ?case by simp
next
  case (2 env attr w rest)
  then show ?case
    by (auto split: sum.splits if_splits)
qed

lemma format_entries_date:
  "format_entries env r = Inr r' \<Longrightarrow> distinct (map fst r) \<Longrightarrow> map_of r k = Some v \<Longrightarrow>
   convert_date env v = Inr s \<Longrightarrow> map_of r' k = Some s"
proof (induction r arbitrary: r' rule: format_entries.induct)
  case (1 env)
  then show ?case by simp
next
  case (2 env attr w rest)
  then show ?case
    by (auto split: sum.splits if_splits)
qed

lemma format_entries_again:
  "canonical_stable env \<Longrightarrow> format_entries env r = Inr r' \<Longrightarrow>
   format_entries env r' = Inr r'"
proof (induction r arbitrary: r' rule: format_entries.induct)
  case (1 env)
  then show ?case by simp
next
  case (2 env attr w rest)
  then show ?case
    by (auto simp: canonical_stable_def split: sum.splits if_splits)
qed

text \<open>With the library as the specification describes it, no entry raises.\<close>

lemma caught_not_a_date [simp]: "caught (not_a_date_error x)"
  by (cases x) simp_all

lemma convert_date_spec:
  "convert_date (spec_datetimeutil try_parse_date absent_as canonical env) v =
     (case try_parse_date v of
        None \<Rightarrow> Inl (not_a_date_error (absent_as v))
      | Some d \<Rightarrow> Inr (canonical d))"
  by (simp add: convert_date_def spec_datetimeutil_def split: option.splits)

lemma format_entries_spec:
  "format_entries (spec_datetimeutil try_parse_date absent_as canonical env) r =
     Inr (map (\<lambda>(attr, v). (attr, case try_parse_date v of None \<Rightarrow> v | Some d \<Rightarrow> canonical d)) r)"
  by (induction r) (auto simp: convert_date_spec split: option.splits)

subsection \<open>The concrete run\<close>

lemmas demo_defs =
  demo_env_def demo_config_def demo_day_key_def demo_strftime_def demo_get_list_def
  demo_json_loads_def
  demo_string_to_datetime_def demo_date_to_string_def crash_a_def crash_b_def crash_c_def
  demo_env_malformed_def demo_env_unreachable_def

lemmas main_defs =
  main_def backfill_day_def get_index_for_date_def process_report_def
  format_dates_in_crash_def getitem_def convert_date_def offer_def index_crashes_def
  sub_one_day_def date_min_def Let_def numeral_2_eq_2


lemma demo_canonical_stable: "canonical_stable demo_env"
  by (auto simp: canonical_stable_def convert_date_def demo_defs
      split: json_value.splits if_splits option.splits sum.splits)

section \<open>The batcher\<close>

text \<open>
  C2, as the code has it. The loop tests the pending count as it stands before the
  offered crash is appended: when that count is strictly above \<open>index_doc_number\<close>
  the pending list is handed over as a batch and the offered crash starts the new
  pending list; otherwise the crash is appended and nothing is handed over. So, for a
  threshold \<open>t \<ge> 0\<close>, offering \<open>t + 1\<close> crashes hands over nothing and leaves all of
  them pending, the crash offered after them hands over that one batch of \<open>t + 1\<close>, and
  offering exactly \<open>t\<close> crashes hands over nothing.
\<close>

theorem offer_tests_count_before_append:
  "fst (offer cfg pending c) =
     (if index_doc_number cfg < int (length pending) then Some pending else None) \<and>
   snd (offer cfg pending c) =
     (if index_doc_number cfg < int (length pending) then [c] else pending @ [c]) \<and>
   (0 \<le> index_doc_number cfg \<and> int (length cs) = index_doc_number cfg + 1 \<longrightarrow>
      offer_all cfg [] cs = ([], cs) \<and> offer_all cfg [] (cs @ [c]) = ([cs], [c])) \<and>
   (int (length cs) = index_doc_number cfg \<longrightarrow> offer_all cfg [] cs = ([], cs))"
proof -
  have one: "offer_all cfg [] cs = ([], cs)"
    if "int (length cs) \<le> index_doc_number cfg + 1" for cs :: "'a crash list"
    using offer_all_below [of "[]" cs cfg] that by simp
  have two: "offer_all cfg [] (cs @ [c]) = ([cs], [c])"
    if "int (length cs) = index_doc_number cfg + 1"
    using one [of cs] that by (simp add: offer_all_append offer_def)
  show ?thesis
    using one [of cs] two by (simp add: offer_def)
qed

theorem offer_tests_count_before_append_witness:
  "fst (offer demo_config [crash_a, crash_b] crash_c) = Some [crash_a, crash_b] \<and>
   snd (offer demo_config [crash_a, crash_b] crash_c) = [crash_c] \<and>
   offer_all demo_config [] [crash_a, crash_b] = ([], [crash_a, crash_b]) \<and>
   offer_all demo_config [] ([crash_a, crash_b] @ [crash_c]) =
     ([[crash_a, crash_b]], [crash_c]) \<and>
   offer_all demo_config [] [crash_a] = ([], [crash_a])"
  using
    offer_tests_count_before_append
      [of demo_config "[crash_a, crash_b]" crash_c "[crash_a, crash_b]"]
    offer_tests_count_before_append [of demo_config "[]" crash_c "[crash_a]"]
  by (simp add: demo_config_def)

text \<open>
  C2 as the specification words it fails: with threshold 0, one offered crash makes the
  pending count 1, which exceeds 0, and yet nothing is handed over.
\<close>

theorem one_record_threshold_zero_no_ready_batch:
  "fst (offer (demo_config\<lparr>index_doc_number := 0\<rparr>) [] crash_c) = None \<and>
   offer_all (demo_config\<lparr>index_doc_number := 0\<rparr>) [] [crash_c] = ([], [crash_c])"
  by (simp add: offer_def demo_config_def)

text \<open>
  C10. For a day whose fetch returns, whose reports all deserialize and whose crashes
  all come back from \<^verbatim>\<open>format_dates_in_crash\<close>, the day ends without an exception
  and its bulk writes, put end to end in the order they are made, are exactly the
  processed crashes in the order the reports were fetched.
\<close>

theorem day_submits_each_record_once:
  assumes "get_list_of_processed_json_for_date env (strftime env d ''%y%m%d'') 5 = Inr reports"
    and "map (json_loads env) reports = map Inr crashes"
    and "map (format_dates_in_crash env) crashes = map Inr processed"
  shows "snd (backfill_day env cfg d) = Inr () \<and>
         concat (bulk_batches (fst (backfill_day env cfg d))) = processed"
proof -
  obtain bs p where o: "offer_all cfg [] processed = (bs, p)"
    by (cases "offer_all cfg [] processed")
  from offer_all_concat [OF o] have "concat bs @ p = processed" by simp
  with o show ?thesis
    by (auto simp: backfill_day_processed [OF assms(1) process_report_map [OF assms(2,3)]])
qed

theorem day_submits_each_record_once_witness:
  "snd (backfill_day demo_env demo_config 738955) = Inr () \<and>
   concat (bulk_batches (fst (backfill_day demo_env demo_config 738955))) =
     [[(''uuid'', JString ''a''), (''date_processed'', JString ''2024-03-10T00:00:00+00:00''),
       (''build'', JString ''20240301''), (''email'', JString []), (''hang_type'', JNull),
       (''uptime'', JNumber 17)],
      crash_b, crash_c]"
proof -
  have "get_list_of_processed_json_for_date demo_env (strftime demo_env 738955 ''%y%m%d'') 5 =
      Inr [''report a'', ''report b'', ''report c'']"
    by (simp add: demo_defs)
  moreover have "map (json_loads demo_env) [''report a'', ''report b'', ''report c''] =
      map Inr [crash_a, crash_b, crash_c]"
    by (simp add: demo_env_def demo_json_loads_def)
  moreover have "map (format_dates_in_crash demo_env) [crash_a, crash_b, crash_c] =
      map Inr
       [[(''uuid'', JString ''a''), (''date_processed'', JString ''2024-03-10T00:00:00+00:00''),
         (''build'', JString ''20240301''), (''email'', JString []), (''hang_type'', JNull),
         (''uptime'', JNumber 17)],
        crash_b, crash_c]"
    by (simp add: format_dates_in_crash_def getitem_def convert_date_def demo_defs)
  ultimately show ?thesis
    by (rule day_submits_each_record_once)
qed

section \<open>The days of a run\<close>




section \<open>The index of a day\<close>

text \<open>
  C8, as the code has it. \<^verbatim>\<open>get_index_for_date\<close> returns nothing for an
  unset or empty index name, and the name itself when it is not empty and has no
  \<^verbatim>\<open>%\<close> character. For a name with a \<^verbatim>\<open>%\<close>, a date format or not, it
  returns what \<^verbatim>\<open>day.strftime\<close> makes of the name. It raises nothing of its
  own: an exception is one \<^verbatim>\<open>day.strftime\<close> raised for that day on a name with
  a \<^verbatim>\<open>%\<close>. Its result depends on the configured name, the day and the answer of
  \<^verbatim>\<open>day.strftime\<close> for them only, and with a \<^verbatim>\<open>strftime\<close> that
  returns it is the index \<^verbatim>\<open>main\<close> works with.
\<close>

theorem get_index_for_date_follows_percent:
  "(configured = None \<or> configured = Some [] \<longrightarrow>
      get_index_for_date_or_raise day_strftime configured day = Inr None) \<and>
   (configured = Some t \<and> t \<noteq> [] \<and> CHR ''%'' \<notin> set t \<longrightarrow>
      get_index_for_date_or_raise day_strftime configured day = Inr (Some t)) \<and>
   (configured = Some t \<and> CHR ''%'' \<in> set t \<longrightarrow>
      get_index_for_date_or_raise day_strftime configured day =
        (case day_strftime day t of Inl e \<Rightarrow> Inl e | Inr formatted \<Rightarrow> Inr (Some formatted))) \<and>
   (get_index_for_date_or_raise day_strftime configured day = Inl e \<longrightarrow>
      (\<exists>t. configured = Some t \<and> CHR ''%'' \<in> set t \<and> day_strftime day t = Inl e)) \<and>
   ((\<forall>t. configured = Some t \<longrightarrow> other_strftime day t = day_strftime day t) \<longrightarrow>
      get_index_for_date_or_raise other_strftime configured day =
        get_index_for_date_or_raise day_strftime configured day) \<and>
   get_index_for_date_or_raise (\<lambda>d fmt. Inr (strftime env d fmt)) (elasticsearch_index cfg) day =
     Inr (get_index_for_date env cfg day)"
  by (auto simp: get_index_for_date_or_raise_def get_index_for_date_def
      split: option.splits sum.splits)

theorem get_index_for_date_follows_percent_witness:
  "get_index_for_date_or_raise directive_strftime (Some []) 738955 = Inr None \<and>
   get_index_for_date_or_raise directive_strftime None 1 = Inr None \<and>
   get_index_for_date_or_raise directive_strftime (Some ''fixed'') 1 = Inr (Some ''fixed'') \<and>
   get_index_for_date_or_raise directive_strftime (Some ''socorro%y%m%d'') 738955 =
     Inr (Some ''socorro240310'') \<and>
   get_index_for_date_or_raise directive_strftime (Some ''socorro%y%m%d'') 1 = Inl ValueError \<and>
   get_index_for_date_or_raise (\<lambda>d fmt. Inr (strftime demo_env d fmt))
     (elasticsearch_index demo_config) 738955 = Inr (Some ''socorro240310'')"
proof -
  have f: "directive_strftime 738955 ''socorro%y%m%d'' = Inr ''socorro240310''"
    "directive_strftime 1 ''socorro%y%m%d'' = Inl ValueError"
    by (simp_all add: directive_strftime_def demo_day_key_def)
  have g: "get_index_for_date demo_env demo_config 738955 = Some ''socorro240310''"
    by (simp add: get_index_for_date_def demo_defs)
  show ?thesis
    using
      get_index_for_date_follows_percent
        [where configured = "Some []" and day_strftime = directive_strftime and day = 738955
           and t = "[]" and other_strftime = directive_strftime and env = demo_env
           and cfg = demo_config and e = ValueError]
      get_index_for_date_follows_percent
        [where configured = None and day_strftime = directive_strftime and day = 1
           and t = "[]" and other_strftime = directive_strftime and env = demo_env
           and cfg = demo_config and e = ValueError]
      get_index_for_date_follows_percent
        [where configured = "Some ''fixed''" and day_strftime = directive_strftime and day = 1
           and t = "''fixed''" and other_strftime = directive_strftime and env = demo_env
           and cfg = demo_config and e = ValueError]
      get_index_for_date_follows_percent
        [where configured = "Some ''socorro%y%m%d''" and day_strftime = directive_strftime
           and day = 738955 and t = "''socorro%y%m%d''" and other_strftime = directive_strftime
           and env = demo_env and cfg = demo_config and e = ValueError]
      get_index_for_date_follows_percent
        [where configured = "Some ''socorro%y%m%d''" and day_strftime = directive_strftime
           and day = 1 and t = "''socorro%y%m%d''" and other_strftime = directive_strftime
           and env = demo_env and cfg = demo_config and e = ValueError]
    by (simp add: f g)
qed

text \<open>
  C8 as the specification words it fails: the name \<^verbatim>\<open>idx%%\<close> has no date
  format in it, only the escape for a percent sign, and the index of the day is
  \<^verbatim>\<open>idx%\<close>, not the name.
\<close>

theorem escaped_percent_is_rewritten:
  "get_index_for_date_or_raise directive_strftime (Some ''idx%%'') 738955 = Inr (Some ''idx%'') \<and>
   get_index_for_date
     (demo_env\<lparr>strftime := (\<lambda>d fmt. expand_directives (demo_day_key d) fmt)\<rparr>)
     (demo_config\<lparr>elasticsearch_index := Some ''idx%%''\<rparr>) 738955 = Some ''idx%''"
  by (simp add: get_index_for_date_or_raise_def get_index_for_date_def directive_strftime_def
      demo_day_key_def demo_env_def demo_config_def)

text \<open>
  C4, as the code has it. With an unset or empty index name
  \<^verbatim>\<open>get_index_for_date\<close> returns \<^verbatim>\<open>None\<close>, and every day makes exactly
  one \<^verbatim>\<open>create_index\<close> call all the same, with whatever
  \<^verbatim>\<open>get_index_for_date\<close> returned as its argument.
\<close>

theorem create_index_requested_every_day:
  "((elasticsearch_index cfg = None \<or> elasticsearch_index cfg = Some []) \<longrightarrow>
      get_index_for_date env cfg d = None) \<and>
   create_calls (fst (backfill_day env cfg d)) = [get_index_for_date env cfg d]"
  using backfill_day_calls [of env cfg d]
  by (auto simp: get_index_for_date_def)

theorem create_index_requested_every_day_witness:
  "get_index_for_date demo_env (demo_config\<lparr>elasticsearch_index := None\<rparr>) 738954 = None \<and>
   create_calls (fst (backfill_day demo_env (demo_config\<lparr>elasticsearch_index := None\<rparr>) 738954)) =
     [None] \<and>
   create_calls (fst (backfill_day demo_env demo_config 738954)) = [Some ''socorro240309'']"
  using
    create_index_requested_every_day
      [of "demo_config\<lparr>elasticsearch_index := None\<rparr>" demo_env 738954]
    create_index_requested_every_day [of demo_config demo_env 738954]
  by (simp add: get_index_for_date_def demo_defs)

text \<open>
  C4 as the specification words it fails: with the empty index name the day still
  calls \<^verbatim>\<open>create_index\<close>, with \<^verbatim>\<open>None\<close>.
\<close>

theorem empty_template_still_requests_creation:
  "get_index_for_date demo_env (demo_config\<lparr>elasticsearch_index := Some []\<rparr>) 738955 = None \<and>
   create_calls
     (fst (backfill_day demo_env (demo_config\<lparr>elasticsearch_index := Some []\<rparr>) 738955)) =
     [None]"
  by (simp add: main_defs demo_defs)

section \<open>Formatting the dates of a crash\<close>

text \<open>
  C5. Given what the specification asks of \<^verbatim>\<open>datetimeutil\<close>
  (\<open>canonical_stable\<close>), formatting the dates of a crash twice gives what formatting
  them once gives, an exception included. An attribute whose value
  \<^verbatim>\<open>datetimeutil\<close> refuses keeps its value, and so does an attribute whose
  value already is in the output format.
\<close>

theorem format_dates_in_crash_idempotent:
  assumes "canonical_stable env" and "distinct (map fst r)"
  shows "(case format_dates_in_crash env r of
            Inl e \<Rightarrow> Inl e
          | Inr r' \<Rightarrow> format_dates_in_crash env r') = format_dates_in_crash env r \<and>
         (\<forall>r' k v e.
            format_dates_in_crash env r = Inr r' \<and> map_of r k = Some v \<and>
            convert_date env v = Inl e \<longrightarrow> map_of r' k = Some v) \<and>
         (\<forall>r' k v s.
            format_dates_in_crash env r = Inr r' \<and> map_of r k = Some s \<and>
            convert_date env v = Inr s \<longrightarrow> map_of r' k = Some s)"
proof (intro conjI allI impI)
  show "(case format_dates_in_crash env r of
            Inl e \<Rightarrow> Inl e
          | Inr r' \<Rightarrow> format_dates_in_crash env r') = format_dates_in_crash env r"
  proof (cases "format_dates_in_crash env r")
    case (Inl e)
    then show ?thesis by simp
  next
    case (Inr r')
    with assms(2) have e: "format_entries env r = Inr r'"
      by (simp add: format_dates_in_crash_entries)
    from format_entries_keys [OF e] assms(2) have d: "distinct (map fst r')" by simp
    from format_entries_again [OF assms(1) e] d Inr show ?thesis
      by (simp add: format_dates_in_crash_entries)
  qed
next
  fix r' k v e
  assume "format_dates_in_crash env r = Inr r' \<and> map_of r k = Some v \<and>
    convert_date env v = Inl e"
  with assms(2) show "map_of r' k = Some v"
    by (auto simp: format_dates_in_crash_entries dest: format_entries_not_date)
next
  fix r' k v s
  assume a: "format_dates_in_crash env r = Inr r' \<and> map_of r k = Some s \<and>
    convert_date env v = Inr s"
  with assms(1) have "convert_date env s = Inr s"
    by (auto simp: canonical_stable_def)
  with a assms(2) show "map_of r' k = Some s"
    by (auto simp: format_dates_in_crash_entries dest: format_entries_date)
qed

theorem format_dates_in_crash_idempotent_witness:
  "format_dates_in_crash demo_env crash_a =
     Inr [(''uuid'', JString ''a''), (''date_processed'', JString ''2024-03-10T00:00:00+00:00''),
          (''build'', JString ''20240301''), (''email'', JString []), (''hang_type'', JNull),
          (''uptime'', JNumber 17)] \<and>
   format_dates_in_crash demo_env
     [(''uuid'', JString ''a''), (''date_processed'', JString ''2024-03-10T00:00:00+00:00''),
      (''build'', JString ''20240301''), (''email'', JString []), (''hang_type'', JNull),
      (''uptime'', JNumber 17)] =
     Inr [(''uuid'', JString ''a''), (''date_processed'', JString ''2024-03-10T00:00:00+00:00''),
          (''build'', JString ''20240301''), (''email'', JString []), (''hang_type'', JNull),
          (''uptime'', JNumber 17)]"
proof -
  have first: "format_dates_in_crash demo_env crash_a =
     Inr [(''uuid'', JString ''a''), (''date_processed'', JString ''2024-03-10T00:00:00+00:00''),
          (''build'', JString ''20240301''), (''email'', JString []), (''hang_type'', JNull),
          (''uptime'', JNumber 17)]"
    by (simp add: format_dates_in_crash_def getitem_def convert_date_def demo_defs)
  have "distinct (map fst crash_a)"
    by (simp add: crash_a_def)
  from format_dates_in_crash_idempotent [OF demo_canonical_stable this] first
  show ?thesis
    by simp
qed

text \<open>
  C6. With \<^verbatim>\<open>datetimeutil\<close> as the specification describes it
  (\<open>spec_datetimeutil\<close>, for any parser, any canonical format and any choice among
  the three exceptions), \<^verbatim>\<open>format_dates_in_crash\<close> returns for every crash: the
  same attributes in the same order, every value the parser does not recognize as it
  was, and every recognized date in the canonical format. No crash makes it raise.
\<close>

theorem format_dates_in_crash_returns:
  assumes "distinct (map fst r)"
  shows "format_dates_in_crash (spec_datetimeutil try_parse_date absent_as canonical env) r =
           Inr (map (\<lambda>(attr, v).
                  (attr, case try_parse_date v of None \<Rightarrow> v | Some d \<Rightarrow> canonical d)) r) \<and>
         (\<forall>r' attr v.
            format_dates_in_crash (spec_datetimeutil try_parse_date absent_as canonical env) r =
              Inr r' \<and>
            map_of r attr = Some v \<and> try_parse_date v = None \<longrightarrow>
            map fst r' = map fst r \<and> map_of r' attr = Some v)"
proof -
  let ?env = "spec_datetimeutil try_parse_date absent_as canonical env"
  have whole: "format_dates_in_crash ?env r =
           Inr (map (\<lambda>(attr, v).
                  (attr, case try_parse_date v of None \<Rightarrow> v | Some d \<Rightarrow> canonical d)) r)"
    using assms by (simp add: format_dates_in_crash_entries format_entries_spec)
  have "map fst r' = map fst r \<and> map_of r' attr = Some v"
    if "format_dates_in_crash ?env r = Inr r' \<and> map_of r attr = Some v \<and>
        try_parse_date v = None" for r' attr v
  proof -
    from that assms have e: "format_entries ?env r = Inr r'"
      by (simp add: format_dates_in_crash_entries)
    from that have "convert_date ?env v = Inl (not_a_date_error (absent_as v))"
      by (simp add: convert_date_spec)
    with format_entries_not_date [OF e assms] format_entries_keys [OF e] that
    show ?thesis by blast
  qed
  with whole show ?thesis by blast
qed

theorem format_dates_in_crash_returns_witness:
  "format_dates_in_crash
     (spec_datetimeutil demo_try_parse_date demo_absent_as JString demo_env) crash_a =
     Inr [(''uuid'', JString ''a''), (''date_processed'', JString ''2024-03-10T00:00:00+00:00''),
          (''build'', JString ''20240301''), (''email'', JString []), (''hang_type'', JNull),
          (''uptime'', JNumber 17)]"
proof -
  have "distinct (map fst crash_a)"
    by (simp add: crash_a_def)
  from format_dates_in_crash_returns [OF this, of demo_try_parse_date demo_absent_as JString demo_env]
  show ?thesis
    by (simp add: crash_a_def demo_try_parse_date_def)
qed

section \<open>Exceptions of the collaborators\<close>

text \<open>
  C3, as the code has it. \<^verbatim>\<open>json.loads\<close> is called outside any
  \<^verbatim>\<open>try\<close>: when a report of a day does not deserialize, the exception leaves
  \<^verbatim>\<open>main\<close>. The bulk writes made are those the reports before it caused, the
  crashes still pending are not written, the reports after it are not looked at, and no
  later day is worked on.
\<close>

theorem undecodable_report_aborts_run:
  assumes "get_list_of_processed_json_for_date env (strftime env d ''%y%m%d'') 5 =
             Inr (good @ bad # rest)"
    and "map (process_report env) good = map Inr processed"
    and "json_loads env bad = Inl e"
  shows "main_loop env cfg (Suc n) d =
     ([(d, [LogInfo (strftime env d ''%y%m%d''), CreateIndex (get_index_for_date env cfg d),
            GetList (strftime env d ''%y%m%d'') 5] @
           map (index_crashes cfg (get_index_for_date env cfg d))
             (fst (offer_all cfg [] processed)))],
      Inl e)"
  using assms(1) index_reports_undecodable [OF assms(2,3)]
  by (simp add: backfill_day_def Let_def)

theorem undecodable_report_aborts_run_witness:
  "main_loop demo_env_malformed demo_config (Suc 1) 738955 =
     ([(738955,
        [LogInfo ''240310'', CreateIndex (Some ''socorro240310''), GetList ''240310'' 5])],
      Inl ValueError)"
proof -
  have "get_list_of_processed_json_for_date demo_env_malformed
          (strftime demo_env_malformed 738955 ''%y%m%d'') 5 =
        Inr ([''report a''] @ ''{'' # [''report b''])"
    "map (process_report demo_env_malformed) [''report a''] =
       map Inr [[(''uuid'', JString ''a''),
         (''date_processed'', JString ''2024-03-10T00:00:00+00:00''),
         (''build'', JString ''20240301''), (''email'', JString []),
         (''hang_type'', JNull), (''uptime'', JNumber 17)]]"
    "json_loads demo_env_malformed ''{'' = Inl ValueError"
    by (simp_all add: process_report_def format_dates_in_crash_def getitem_def
        convert_date_def demo_defs)
  from undecodable_report_aborts_run [OF this, of demo_config 1] show ?thesis
    by (simp add: get_index_for_date_def offer_def demo_defs)
qed

text \<open>
  C3 as the specification words it fails: with a payload that is not JSON between two
  that are, the run ends with \<^verbatim>\<open>ValueError\<close>, without any bulk write and
  without the second day.
\<close>

theorem undecodable_report_ends_the_run:
  "main demo_env_malformed demo_config =
     ([(738955,
        [LogInfo ''240310'', CreateIndex (Some ''socorro240310''), GetList ''240310'' 5])],
      Inl ValueError)"
  by (simp add: main_defs demo_defs)

text \<open>
  C9, as the code has it. Every day makes exactly one fetch, with
  \<^verbatim>\<open>number_of_retries=5\<close>; when that call raises, the exception leaves
  \<^verbatim>\<open>main\<close>: the day has made its three opening calls and no later day is
  worked on.
\<close>

theorem failed_fetch_aborts_run:
  "fetch_calls (fst (backfill_day env cfg d)) = [(strftime env d ''%y%m%d'', 5)] \<and>
   (get_list_of_processed_json_for_date env (strftime env d ''%y%m%d'') 5 = Inl e \<longrightarrow>
      main_loop env cfg (Suc n) d =
        ([(d, [LogInfo (strftime env d ''%y%m%d''), CreateIndex (get_index_for_date env cfg d),
               GetList (strftime env d ''%y%m%d'') 5])],
         Inl e))"
  using backfill_day_calls [of env cfg d]
  by (simp add: backfill_day_def Let_def)

theorem failed_fetch_aborts_run_witness:
  "fetch_calls (fst (backfill_day demo_env_unreachable demo_config 738955)) = [(''240310'', 5)] \<and>
   main_loop demo_env_unreachable demo_config (Suc 1) 738955 =
     ([(738955,
        [LogInfo ''240310'', CreateIndex (Some ''socorro240310''), GetList ''240310'' 5])],
      Inl (OtherError ''hbase''))"
proof -
  have "get_list_of_processed_json_for_date demo_env_unreachable
          (strftime demo_env_unreachable 738955 ''%y%m%d'') 5 = Inl (OtherError ''hbase'')"
    by (simp add: demo_defs)
  with failed_fetch_aborts_run [of demo_env_unreachable demo_config 738955 "OtherError ''hbase''" 1]
  show ?thesis
    by (simp add: get_index_for_date_def demo_defs)
qed

text \<open>
  C9 as the specification words it fails: the fetch of the first day raises, the
  fetch of the second day would return a report, and the run ends with the exception of
  the first day.
\<close>

theorem failed_fetch_ends_the_run:
  "main demo_env_unreachable demo_config =
     ([(738955,
        [LogInfo ''240310'', CreateIndex (Some ''socorro240310''), GetList ''240310'' 5])],
      Inl (OtherError ''hbase'')) \<and>
   get_list_of_processed_json_for_date demo_env_unreachable
     (strftime demo_env_unreachable 738954 ''%y%m%d'') 5 = Inr [''report c'']"
  by (simp add: main_defs demo_defs)

section \<open>A run of two days\<close>

text \<open>
  C1. End date 2024-03-10 (day 738955), duration 2, threshold 1; the source returns
  three reports for 2024-03-10, each processed without an exception, and none for
  2024-03-09. Then \<^verbatim>\<open>main\<close> returns 0 after working on the two days in that
  order; each day makes one \<^verbatim>\<open>create_index\<close> call; the first day makes two
  bulk writes, of the first two crashes and then of the third; the second day makes none.
\<close>

theorem scenario_two_days:
  assumes "end_date cfg = 738955" and "duration cfg = 2" and "index_doc_number cfg = 1"
    and "get_list_of_processed_json_for_date env (strftime env 738955 ''%y%m%d'') 5 =
           Inr [r1, r2, r3]"
    and "process_report env r1 = Inr c1"
    and "process_report env r2 = Inr c2"
    and "process_report env r3 = Inr c3"
    and "get_list_of_processed_json_for_date env (strftime env 738954 ''%y%m%d'') 5 = Inr []"
  shows "snd (main env cfg) = Inr 0 \<and>
         map fst (fst (main env cfg)) = [738955, 738954] \<and>
         map (\<lambda>(d, evs). create_calls evs) (fst (main env cfg)) =
           [[get_index_for_date env cfg 738955], [get_index_for_date env cfg 738954]] \<and>
         map (\<lambda>(d, evs). bulk_batches evs) (fst (main env cfg)) = [[[c1, c2], [c3]], []]"
proof -
  have first: "map (process_report env) [r1, r2, r3] = map Inr [c1, c2, c3]"
    using assms(5-7) by simp
  have second: "map (process_report env) [] = map Inr []"
    by simp
  have two: "nat (duration cfg) = Suc (Suc 0)"
    using assms(2) by simp
  show ?thesis
    using assms(1,3)
    by (simp add: main_def two sub_one_day_def date_min_def
        backfill_day_processed [OF assms(4) first]
        backfill_day_processed [OF assms(8) second] offer_def index_crashes_def)
qed

theorem scenario_two_days_witness:
  "snd (main demo_env demo_config) = Inr 0 \<and>
   map fst (fst (main demo_env demo_config)) = [738955, 738954] \<and>
   map (\<lambda>(d, evs). create_calls evs) (fst (main demo_env demo_config)) =
     [[Some ''socorro240310''], [Some ''socorro240309'']] \<and>
   map (\<lambda>(d, evs). bulk_batches evs) (fst (main demo_env demo_config)) =
     [[[[(''uuid'', JString ''a''),
         (''date_processed'', JString ''2024-03-10T00:00:00+00:00''),
         (''build'', JString ''20240301''), (''email'', JString []),
         (''hang_type'', JNull), (''uptime'', JNumber 17)],
        crash_b],
       [crash_c]],
      []]"
proof -
  have idx: "get_index_for_date demo_env demo_config 738955 = Some ''socorro240310''"
    "get_index_for_date demo_env demo_config 738954 = Some ''socorro240309''"
    by (simp_all add: get_index_for_date_def demo_defs)
  have "end_date demo_config = 738955" "duration demo_config = 2"
    "index_doc_number demo_config = 1"
    "get_list_of_processed_json_for_date demo_env (strftime demo_env 738955 ''%y%m%d'') 5 =
       Inr [''report a'', ''report b'', ''report c'']"
    "process_report demo_env ''report a'' =
       Inr [(''uuid'', JString ''a''),
         (''date_processed'', JString ''2024-03-10T00:00:00+00:00''),
         (''build'', JString ''20240301''), (''email'', JString []),
         (''hang_type'', JNull), (''uptime'', JNumber 17)]"
    "process_report demo_env ''report b'' = Inr crash_b"
    "process_report demo_env ''report c'' = Inr crash_c"
    "get_list_of_processed_json_for_date demo_env (strftime demo_env 738954 ''%y%m%d'') 5 =
       Inr []"
    by (simp_all add: process_report_def format_dates_in_crash_def getitem_def
        convert_date_def demo_defs)
  from scenario_two_days [OF this] idx show ?thesis
    by simp
qed

end
